theory Spec2Isabelle
  imports Complex_Main
begin

section \<open>Python values used by the allocation engine\<close>

text \<open>
  A Python \<^verbatim>\<open>str\<close> is modelled as a \<^typ>\<open>string\<close> whose characters are the code
  points below 256. On these code points \<^verbatim>\<open>str.strip()\<close> removes the characters for
  which \<^verbatim>\<open>str.isspace()\<close> holds (TAB to CR, FS to US, space, NEL and NBSP) and
  \<^verbatim>\<open>str.lower()\<close> adds 32 to the letters A to Z and to the upper-case letters of the
  upper half (192 to 222 without the multiplication sign 215).
  \<^verbatim>\<open>None\<close> is the value \<^term>\<open>None\<close> of an option type.
\<close>

definition py_isspace :: "char \<Rightarrow> bool" where
  "py_isspace c =
     (let n = (of_char c :: nat)
      in (9 \<le> n \<and> n \<le> 13) \<or> (28 \<le> n \<and> n \<le> 32) \<or> n = 133 \<or> n = 160)"

definition py_strip :: "string \<Rightarrow> string" where
  "py_strip s = rev (dropWhile py_isspace (rev (dropWhile py_isspace s)))"

definition py_lower_char :: "char \<Rightarrow> char" where
  "py_lower_char c =
     (let n = (of_char c :: nat)
      in if (65 \<le> n \<and> n \<le> 90) \<or> (192 \<le> n \<and> n \<le> 222 \<and> n \<noteq> 215)
         then char_of (n + 32) else c)"

definition py_lower :: "string \<Rightarrow> string" where
  "py_lower s = map py_lower_char s"

text \<open>\<^verbatim>\<open>(value or "")\<close> on an optional string: \<^verbatim>\<open>None\<close> and \<^verbatim>\<open>""\<close> are the falsy values.\<close>

definition or_empty :: "string option \<Rightarrow> string" where
  "or_empty v = (case v of None \<Rightarrow> [] | Some s \<Rightarrow> (if s = [] then [] else s))"

text \<open>\<^verbatim>\<open>sep.join(xs)\<close>.\<close>

fun py_join :: "string \<Rightarrow> string list \<Rightarrow> string" where
  "py_join sep [] = []"
| "py_join sep [x] = x"
| "py_join sep (x # y # ys) = x @ sep @ py_join sep (y # ys)"

text \<open>
  Scores are Python floats. They are modelled as exact rationals: sums and comparisons
  are those of the rationals, and NaN and the infinities do not occur.
  \<^verbatim>\<open>round(x, 2)\<close> rounds to the nearest multiple of 1/100, a tie to the even one.
\<close>

definition py_round2 :: "rat \<Rightarrow> rat" where
  "py_round2 x =
     (let y = x * 100; f = \<lfloor>y\<rfloor>; d = y - of_int f
      in of_int (if d < 1 / 2 then f
                 else if 1 / 2 < d then f + 1
                 else if even f then f else f + 1) / 100)"

text \<open>
  A value held in a cell of the roster is seen by the engine only through
  \<^verbatim>\<open>pd.notna(v)\<close>, \<^verbatim>\<open>str(v)\<close> and \<^verbatim>\<open>float(v)\<close>; a cell records the three results.
  \<^term>\<open>None\<close> for \<open>cell_float\<close> means that \<^verbatim>\<open>float(v)\<close> raises. A value that
  \<^verbatim>\<open>float\<close> turns into an infinity or a NaN (the text \<^verbatim>\<open>inf\<close>, say) has no cell.
\<close>

record cell =
  cell_notna :: bool
  cell_str :: string
  cell_float :: "rat option"

text \<open>A text that is no number, such as a course name or the empty string.\<close>

definition text_cell :: "string \<Rightarrow> cell" where
  "text_cell s = \<lparr>cell_notna = True, cell_str = s, cell_float = None\<rparr>"

text \<open>A number \<open>x\<close> (a numeric cell, or a text that \<^verbatim>\<open>float\<close> parses) printed as \<open>s\<close>.\<close>

definition num_cell :: "rat \<Rightarrow> string \<Rightarrow> cell" where
  "num_cell x s = \<lparr>cell_notna = True, cell_str = s, cell_float = Some x\<rparr>"

text \<open>An empty spreadsheet cell: pandas reads it as NaN (\<^verbatim>\<open>float\<close> is never applied to it).\<close>

definition nan_cell :: cell where
  "nan_cell = \<lparr>cell_notna = False, cell_str = ''nan'', cell_float = None\<rparr>"

text \<open>
  A row handed out by \<^verbatim>\<open>df.iterrows()\<close> is a \<^verbatim>\<open>pd.Series\<close> with one value per column
  label: a map from labels to cells. \<^verbatim>\<open>c in row\<close> is \<open>row c \<noteq> None\<close>.
\<close>

type_synonym series = "string \<rightharpoonup> cell"

type_synonym scores = "string \<rightharpoonup> rat"

datatype error = KeyError string | ValueError string

section \<open>Configuration\<close>

definition SUBJECTS :: "string list" where
  "SUBJECTS =
     [''English'', ''Mathematics'', ''Additional Math'', ''Physics'', ''Chemistry'',
      ''Biology'', ''History'', ''Geography'', ''Civics'', ''ICT'', ''Accounting'',
      ''Religion'', ''Commerce'']"

definition COLUMN_ALIASES :: "(string \<times> string) list" where
  "COLUMN_ALIASES =
     [(''student id'', ''Student ID''),
      (''firstname'', ''FirstName''),
      (''first name'', ''FirstName''),
      (''lastname'', ''LastName''),
      (''last name'', ''LastName''),
      (''gender'', ''Gender''),
      (''section'', ''Section''),
      (''choice 1'', ''Choice 1''),
      (''choice1'', ''Choice 1''),
      (''choice 2'', ''Choice 2''),
      (''choice2'', ''Choice 2''),
      (''choice 3'', ''Choice 3''),
      (''choice3'', ''Choice 3''),
      (''english'', ''English''),
      (''mathematics'', ''Mathematics''),
      (''additional math'', ''Additional Math''),
      (''additional mathematics'', ''Additional Math''),
      (''add math'', ''Additional Math''),
      (''physics'', ''Physics''),
      (''chemistry'', ''Chemistry''),
      (''biology'', ''Biology''),
      (''history'', ''History''),
      (''geography'', ''Geography''),
      (''civics'', ''Civics''),
      (''ict'', ''ICT''),
      (''accounting'', ''Accounting''),
      (''religion'', ''Religion''),
      (''commerce'', ''Commerce'')]"

section \<open>Utilities\<close>

definition normalize_name :: "string option \<Rightarrow> string" where
  "normalize_name v = py_strip (or_empty v)"

definition norm_choice :: "string option \<Rightarrow> string option" where
  "norm_choice v = (let v' = py_strip (or_empty v) in if v' \<noteq> [] then Some v' else None)"

definition lower :: "string option \<Rightarrow> string" where
  "lower s = py_lower (py_strip (or_empty s))"

text \<open>
  \<^verbatim>\<open>_collect_choices\<close>: the comprehension keeps the slots that are present and not NaN
  and maps each through \<^verbatim>\<open>_norm_choice(str(...))\<close>; the loop keeps the first element
  for every lowered value. \<open>seen\<close> is the Python set, held as the list of its elements.
\<close>

definition choice_slots :: "series \<Rightarrow> string option list" where
  "choice_slots row =
     concat (map (\<lambda>c. case row c of
                         None \<Rightarrow> []
                       | Some v \<Rightarrow> if cell_notna v then [norm_choice (Some (cell_str v))] else [])
                 [''Choice 1'', ''Choice 2'', ''Choice 3''])"

fun dedup_loop :: "string option list \<Rightarrow> string option list \<Rightarrow> string list \<Rightarrow> string option list" where
  "dedup_loop [] deduped seen = deduped"
| "dedup_loop (c # cs) deduped seen =
     (let lc = lower c
      in if lc \<notin> set seen then dedup_loop cs (deduped @ [c]) (lc # seen)
         else dedup_loop cs deduped seen)"

definition collect_choices :: "series \<Rightarrow> string option list" where
  "collect_choices row = dedup_loop (choice_slots row) [] []"

text \<open>
  \<^verbatim>\<open>_extract_scores\<close>: one entry per subject; a missing label reads as the integer 0,
  a NaN and a value on which \<^verbatim>\<open>float\<close> raises give 0.0.
\<close>

definition int_cell_0 :: cell where
  "int_cell_0 = num_cell 0 ''0''"

definition extract_scores :: "series \<Rightarrow> scores" where
  "extract_scores row =
     fold (\<lambda>subj scores.
             let val = (case row subj of None \<Rightarrow> int_cell_0 | Some v \<Rightarrow> v)
             in scores(subj \<mapsto>
                  (if cell_notna val
                   then (case cell_float val of Some x \<Rightarrow> x | None \<Rightarrow> 0)
                   else 0)))
          SUBJECTS Map.empty"

text \<open>\<^verbatim>\<open>scores.get(s, 0.0)\<close>.\<close>

definition score_get :: "scores \<Rightarrow> string \<Rightarrow> rat" where
  "score_get scores s = (case scores s of None \<Rightarrow> 0 | Some x \<Rightarrow> x)"

text \<open>\<^verbatim>\<open>_aggregate\<close>: \<^verbatim>\<open>x or 0.0\<close> replaces the falsy float 0.0 by 0.0.\<close>

definition aggregate :: "scores \<Rightarrow> rat" where
  "aggregate scores =
     py_round2 (sum_list (map (\<lambda>s. let x = score_get scores s in if x = 0 then 0 else x) SUBJECTS))"

section \<open>Catalog, overrides and session\<close>

text \<open>
  The catalog is the decoded JSON document: a list of universities, each a dictionary.
  A field is \<^term>\<open>None\<close> when the dictionary has no such key. A score dictionary is
  the list of its items in iteration order; the keys of a dictionary are distinct.
\<close>

record course =
  course_name :: "string option"
  min_scores :: "(string \<times> rat) list option"
  max_scores :: "(string \<times> rat) list option"

record university =
  uni_name :: "string option"
  uni_courses :: "course list option"

record override =
  ov_university :: "string option"
  ov_course :: "string option"

record student =
  student_id :: string
  first_name :: string
  last_name :: string
  gender :: string
  section_ :: string

record allocation =
  alloc_student :: student
  alloc_scores :: scores
  alloc_aggregate :: rat
  alloc_choice1 :: "string option"
  alloc_choice2 :: "string option"
  alloc_choice3 :: "string option"
  alloc_university :: string
  alloc_course :: string

record session =
  universities :: "university list"
  allocations_df :: "allocation list option"
  overrides :: "string \<rightharpoonup> override"

text \<open>\<^verbatim>\<open>AllocationSession(universities)\<close>.\<close>

definition new_session :: "university list option \<Rightarrow> session" where
  "new_session unis =
     \<lparr>universities = (case unis of None \<Rightarrow> [] | Some us \<Rightarrow> us),
      allocations_df = None,
      overrides = Map.empty\<rparr>"

text \<open>\<^verbatim>\<open>d.get(key, default)\<close> on an optional field.\<close>

definition get_or :: "'a option \<Rightarrow> 'a \<Rightarrow> 'a" where
  "get_or field dflt = (case field of None \<Rightarrow> dflt | Some v \<Rightarrow> v)"

text \<open>
  \<^verbatim>\<open>load_universities\<close>, after the file has been decoded: names are trimmed and every
  course gets its two score dictionaries.
\<close>

definition load_course :: "course \<Rightarrow> course" where
  "load_course c =
     c\<lparr>course_name := Some (normalize_name (Some (get_or (course_name c) []))),
       min_scores := Some (get_or (min_scores c) []),
       max_scores := Some (get_or (max_scores c) [])\<rparr>"

definition load_university :: "university \<Rightarrow> university" where
  "load_university uni =
     uni\<lparr>uni_name := Some (normalize_name (Some (get_or (uni_name uni) []))),
         uni_courses := map_option (map load_course) (uni_courses uni)\<rparr>"

definition load_universities :: "session \<Rightarrow> university list \<Rightarrow> university list \<times> session" where
  "load_universities self data =
     (let data' = map load_university data
      in (data', self\<lparr>universities := data'\<rparr>))"

section \<open>Eligibility\<close>

text \<open>
  The two loops of \<^verbatim>\<open>is_eligible_for_course\<close>; each gives \<^term>\<open>False\<close> when the loop
  returns \<^verbatim>\<open>False\<close> and \<^term>\<open>True\<close> when it runs to its end.
\<close>

fun min_loop :: "scores \<Rightarrow> (string \<times> rat) list \<Rightarrow> bool" where
  "min_loop scores [] = True"
| "min_loop scores ((subj, min_val) # rest) =
     (if subj \<noteq> ''aggregate'' \<and> score_get scores subj < min_val then False
      else min_loop scores rest)"

fun max_loop :: "scores \<Rightarrow> (string \<times> rat) list \<Rightarrow> bool" where
  "max_loop scores [] = True"
| "max_loop scores ((subj, max_val) # rest) =
     (if score_get scores subj > max_val then False
      else max_loop scores rest)"

definition is_eligible_for_course :: "scores \<Rightarrow> course \<Rightarrow> bool" where
  "is_eligible_for_course scores course =
     (let mins = get_or (min_scores course) [];
          maxs = get_or (max_scores course) []
      in if (case map_of mins ''aggregate'' of
               None \<Rightarrow> False
             | Some m \<Rightarrow> aggregate scores < m) then False
         else if \<not> min_loop scores mins then False
         else if \<not> max_loop scores maxs then False
         else True)"

section \<open>Best fit\<close>

text \<open>
  \<^verbatim>\<open>scan_courses\<close>: the inner loop gives the name of the first course of one university
  that passes the name filter and is eligible; the outer loop reads \<^verbatim>\<open>uni["name"]\<close>
  at the hit, which raises \<^verbatim>\<open>KeyError\<close> when the key is missing.
\<close>

definition filtered_out :: "string option list option \<Rightarrow> string \<Rightarrow> bool" where
  "filtered_out filter_names cname =
     (case filter_names of
        None \<Rightarrow> False
      | Some names \<Rightarrow> names \<noteq> [] \<and> lower (Some cname) \<notin> set (map lower names))"

fun scan_course_list :: "scores \<Rightarrow> string option list option \<Rightarrow> course list \<Rightarrow> string option" where
  "scan_course_list scores filter_names [] = None"
| "scan_course_list scores filter_names (course # rest) =
     (let cname = get_or (course_name course) []
      in if filtered_out filter_names cname then scan_course_list scores filter_names rest
         else if is_eligible_for_course scores course then Some cname
         else scan_course_list scores filter_names rest)"

fun scan_universities ::
  "scores \<Rightarrow> string option list option \<Rightarrow> university list \<Rightarrow> error + (string \<times> string) option" where
  "scan_universities scores filter_names [] = Inr None"
| "scan_universities scores filter_names (uni # rest) =
     (case scan_course_list scores filter_names (get_or (uni_courses uni) []) of
        Some cname \<Rightarrow>
          (case uni_name uni of
             None \<Rightarrow> Inl (KeyError ''name'')
           | Some n \<Rightarrow> Inr (Some (n, cname)))
      | None \<Rightarrow> scan_universities scores filter_names rest)"

definition scan_courses ::
  "session \<Rightarrow> scores \<Rightarrow> string option list option \<Rightarrow> error + (string \<times> string) option" where
  "scan_courses self scores filter_names = scan_universities scores filter_names (universities self)"

text \<open>The loop over the choices: the first hit ends it, a raised error too.\<close>

fun choice_loop :: "session \<Rightarrow> scores \<Rightarrow> string option list \<Rightarrow> error + (string \<times> string) option" where
  "choice_loop self scores [] = Inr None"
| "choice_loop self scores (ch # rest) =
     (case scan_courses self scores (Some [ch]) of
        Inl e \<Rightarrow> Inl e
      | Inr (Some hit) \<Rightarrow> Inr (Some hit)
      | Inr None \<Rightarrow> choice_loop self scores rest)"

definition best_fit ::
  "session \<Rightarrow> student \<Rightarrow> scores \<Rightarrow> string option list \<Rightarrow> error + (string \<times> string)" where
  "best_fit self student scores choices =
     (let sid = normalize_name (Some (student_id student))
      in case overrides self sid of
           Some ov \<Rightarrow>
             Inr (normalize_name (Some (get_or (ov_university ov) ''Manual Override'')),
                  normalize_name (Some (get_or (ov_course ov) ''Manual Override'')))
         | None \<Rightarrow>
             (case choice_loop self scores choices of
                Inl e \<Rightarrow> Inl e
              | Inr (Some hit) \<Rightarrow> Inr hit
              | Inr None \<Rightarrow>
                  (case scan_courses self scores None of
                     Inl e \<Rightarrow> Inl e
                   | Inr (Some any_hit) \<Rightarrow> Inr any_hit
                   | Inr None \<Rightarrow> Inr (''Not Allocated'', ''N/A''))))"

section \<open>Batch allocation\<close>

text \<open>
  The roster as \<^verbatim>\<open>pd.read_excel\<close> returns it: the column labels in order and one row
  per student. A stored row gives a cell for every label; only the labels of
  \<open>df_columns\<close> exist, and \<^verbatim>\<open>iterrows\<close> hands out each row restricted to them.
  Column labels are taken to stay pairwise distinct under renaming (pandas would
  otherwise answer a lookup with a sub-series).
\<close>

record dataframe =
  df_columns :: "string list"
  df_rows :: "(string \<Rightarrow> cell) list"

definition iterrows :: "dataframe \<Rightarrow> series list" where
  "iterrows df =
     map (\<lambda>r. (\<lambda>c. if c \<in> set (df_columns df) then Some (r c) else None)) (df_rows df)"

text \<open>\<^verbatim>\<open>COLUMN_ALIASES.get(col.strip().lower(), col)\<close>.\<close>

definition column_alias :: "string \<Rightarrow> string" where
  "column_alias col = get_or (map_of COLUMN_ALIASES (py_lower (py_strip col))) col"

definition remap_columns :: "dataframe \<Rightarrow> dataframe" where
  "remap_columns df =
     \<lparr>df_columns = map column_alias (df_columns df),
      df_rows = map (\<lambda>r. (\<lambda>l. case List.find (\<lambda>c. column_alias c = l) (df_columns df) of
                                  Some c \<Rightarrow> r c
                                | None \<Rightarrow> r l))
                    (df_rows df)\<rparr>"

text \<open>\<^verbatim>\<open>df[c] = v\<close> for a label that is not yet a column.\<close>

definition add_column :: "string \<Rightarrow> cell \<Rightarrow> dataframe \<Rightarrow> dataframe" where
  "add_column c v df =
     \<lparr>df_columns = df_columns df @ [c], df_rows = map (\<lambda>r. r(c := v)) (df_rows df)\<rparr>"

definition fill_missing :: "string list \<Rightarrow> cell \<Rightarrow> dataframe \<Rightarrow> dataframe" where
  "fill_missing labels v df =
     fold (\<lambda>c d. if c \<notin> set (df_columns d) then add_column c v d else d) labels df"

text \<open>
  \<open>core_required\<close> is a Python set; its iteration order, and with it the order of the
  names in the error message, is not fixed by the language. The list gives the order
  of the source text.
\<close>

definition core_required :: "string list" where
  "core_required = [''Student ID'', ''FirstName'', ''LastName'', ''Gender'', ''Section'']"

text \<open>\<^verbatim>\<open>_normalize_name(str(row[k]))\<close>; \<^verbatim>\<open>row[k]\<close> raises on a missing label.\<close>

definition row_name :: "series \<Rightarrow> string \<Rightarrow> error + string" where
  "row_name row k =
     (case row k of
        None \<Rightarrow> Inl (KeyError k)
      | Some v \<Rightarrow> Inr (normalize_name (Some (cell_str v))))"

definition student_of_row :: "series \<Rightarrow> error + student" where
  "student_of_row row =
     (case row_name row ''Student ID'' of Inl e \<Rightarrow> Inl e | Inr sid \<Rightarrow>
     (case row_name row ''FirstName'' of Inl e \<Rightarrow> Inl e | Inr fname \<Rightarrow>
     (case row_name row ''LastName'' of Inl e \<Rightarrow> Inl e | Inr lname \<Rightarrow>
     (case row_name row ''Gender'' of Inl e \<Rightarrow> Inl e | Inr g \<Rightarrow>
     (case row_name row ''Section'' of Inl e \<Rightarrow> Inl e | Inr sec \<Rightarrow>
        Inr \<lparr>student_id = sid, first_name = fname, last_name = lname,
             gender = g, section_ = sec\<rparr>)))))"

text \<open>The body of the loop over the rows.\<close>

definition allocate_row :: "session \<Rightarrow> series \<Rightarrow> error + allocation" where
  "allocate_row self row =
     (case student_of_row row of
        Inl e \<Rightarrow> Inl e
      | Inr student \<Rightarrow>
          (let scores = extract_scores row;
               agg = aggregate scores;
               choices = collect_choices row
           in case best_fit self student scores choices of
                Inl e \<Rightarrow> Inl e
              | Inr (uni, course) \<Rightarrow>
                  Inr \<lparr>alloc_student = student,
                       alloc_scores = scores,
                       alloc_aggregate = agg,
                       alloc_choice1 = (if length choices > 0 then choices ! 0 else Some []),
                       alloc_choice2 = (if length choices > 1 then choices ! 1 else Some []),
                       alloc_choice3 = (if length choices > 2 then choices ! 2 else Some []),
                       alloc_university = uni,
                       alloc_course = course\<rparr>))"

fun rows_loop :: "session \<Rightarrow> series list \<Rightarrow> allocation list \<Rightarrow> error + allocation list" where
  "rows_loop self [] allocations = Inr allocations"
| "rows_loop self (row # rest) allocations =
     (case allocate_row self row of
        Inl e \<Rightarrow> Inl e
      | Inr a \<Rightarrow> rows_loop self rest (allocations @ [a]))"

text \<open>
  \<^verbatim>\<open>allocate\<close>, with the two files and the overrides already decoded: the roster
  as a frame, the catalog as a list of universities, the overrides as a dictionary or
  \<^verbatim>\<open>None\<close> (a JSON text that does not decode counts as the empty dictionary).
  The result is what is returned or raised, and the session afterwards.
\<close>

definition allocate ::
  "session \<Rightarrow> dataframe \<Rightarrow> university list \<Rightarrow> (string \<rightharpoonup> override) option
     \<Rightarrow> (error + allocation list) \<times> session" where
  "allocate self excel uni_json overrides_arg =
     (let self1 = self\<lparr>overrides := get_or overrides_arg Map.empty\<rparr>;
          self2 = snd (load_universities self1 uni_json);
          df = remap_columns excel;
          missing_core = filter (\<lambda>c. c \<notin> set (df_columns df)) core_required
      in if missing_core \<noteq> []
         then (Inl (ValueError (''Missing required columns: '' @ py_join '', '' missing_core)), self2)
         else
           (let df1 = fill_missing SUBJECTS int_cell_0 df;
                df2 = fill_missing [''Choice 1'', ''Choice 2'', ''Choice 3''] (text_cell []) df1
            in case rows_loop self2 (iterrows df2) [] of
                 Inl e \<Rightarrow> (Inl e, self2)
               | Inr allocations \<Rightarrow> (Inr allocations, self2\<lparr>allocations_df := Some allocations\<rparr>)))"

section \<open>Notions used in the statements\<close>

text \<open>
  What one subject of a row counts for: a missing label, a NaN and a value that
  \<^verbatim>\<open>float\<close> rejects count 0, any other value counts its number.
\<close>

definition subject_score :: "series \<Rightarrow> string \<Rightarrow> rat" where
  "subject_score row subj =
     (case row subj of
        None \<Rightarrow> 0
      | Some v \<Rightarrow> if cell_notna v then (case cell_float v of None \<Rightarrow> 0 | Some x \<Rightarrow> x) else 0)"

text \<open>
  The catalog read in its order: the universities in list order, the courses of each
  in list order, every course paired with its university.
\<close>

definition catalog_courses :: "university list \<Rightarrow> (university \<times> course) list" where
  "catalog_courses unis =
     concat (map (\<lambda>uni. map (Pair uni) (get_or (uni_courses uni) [])) unis)"

text \<open>The first course of the catalog, in that order, with property \<open>P\<close>.\<close>

definition first_course :: "(course \<Rightarrow> bool) \<Rightarrow> university list \<Rightarrow> (university \<times> course) option" where
  "first_course P unis = List.find (\<lambda>(uni, course). P course) (catalog_courses unis)"

text \<open>The course's name matches the choice, both trimmed and lowered as \<open>_lower\<close> does.\<close>

definition names_choice :: "string option \<Rightarrow> course \<Rightarrow> bool" where
  "names_choice ch course \<longleftrightarrow> lower (Some (get_or (course_name course) [])) = lower ch"

text \<open>The test one course faces in \<open>scan_courses\<close>: not filtered out, and eligible.\<close>

definition passes :: "scores \<Rightarrow> string option list option \<Rightarrow> course \<Rightarrow> bool" where
  "passes scores filter_names course \<longleftrightarrow>
     \<not> filtered_out filter_names (get_or (course_name course) [])
     \<and> is_eligible_for_course scores course"

text \<open>What \<open>scan_courses\<close> makes of the course it stops at.\<close>

definition hit_result :: "(university \<times> course) option \<Rightarrow> error + (string \<times> string) option" where
  "hit_result h =
     (case h of
        None \<Rightarrow> Inr None
      | Some (uni, course) \<Rightarrow>
          (case uni_name uni of
             None \<Rightarrow> Inl (KeyError ''name'')
           | Some n \<Rightarrow> Inr (Some (n, get_or (course_name course) []))))"

text \<open>The steps of \<open>allocate\<close>, named: the required columns that are missing after
  renaming, the session once overrides and catalog are stored, and the frame the loop
  over the rows runs on.\<close>

definition missing_core_of :: "dataframe \<Rightarrow> string list" where
  "missing_core_of excel =
     filter (\<lambda>c. c \<notin> set (df_columns (remap_columns excel))) core_required"

definition loaded :: "session \<Rightarrow> university list \<Rightarrow> (string \<rightharpoonup> override) option \<Rightarrow> session" where
  "loaded self uni_json overrides_arg =
     snd (load_universities (self\<lparr>overrides := get_or overrides_arg Map.empty\<rparr>) uni_json)"

definition prepared :: "dataframe \<Rightarrow> dataframe" where
  "prepared excel =
     fill_missing [''Choice 1'', ''Choice 2'', ''Choice 3''] (text_cell [])
       (fill_missing SUBJECTS int_cell_0 (remap_columns excel))"

text \<open>What filling the missing columns does to one row: a missing subject label reads
  as the integer 0, a missing choice label as the empty string.\<close>

definition fill_series :: "series \<Rightarrow> series" where
  "fill_series row =
     (\<lambda>l. case row l of
             Some v \<Rightarrow> Some v
           | None \<Rightarrow>
               if l \<in> set SUBJECTS then Some int_cell_0
               else if l \<in> set [''Choice 1'', ''Choice 2'', ''Choice 3''] then Some (text_cell [])
               else None)"

section \<open>Example inputs\<close>

text \<open>A university dictionary without the key \<^verbatim>\<open>"name"\<close>, offering an unconstrained course.\<close>

definition nameless_university :: university where
  "nameless_university =
     \<lparr>uni_name = None,
      uni_courses = Some [\<lparr>course_name = Some ''Law'', min_scores = None, max_scores = None\<rparr>]\<rparr>"

text \<open>A session whose overrides send student S1 to (X University, Biology), untrimmed.\<close>

definition override_session :: session where
  "override_session =
     \<lparr>universities = [],
      allocations_df = None,
      overrides = [''S1'' \<mapsto> \<lparr>ov_university = Some '' X University'', ov_course = Some ''Biology ''\<rparr>]\<rparr>"

text \<open>A session whose override for S1 has neither key.\<close>

definition bare_override_session :: session where
  "bare_override_session =
     \<lparr>universities = [],
      allocations_df = None,
      overrides = [''S1'' \<mapsto> \<lparr>ov_university = None, ov_course = None\<rparr>]\<rparr>"

definition student_S1 :: student where
  "student_S1 =
     \<lparr>student_id = '' S1 '', first_name = ''Ada'', last_name = ''Okoro'',
      gender = ''F'', section_ = ''A''\<rparr>"

text \<open>A course with an aggregate minimum, a subject minimum and a subject maximum.\<close>

definition medicine :: course where
  "medicine =
     \<lparr>course_name = Some ''Medicine'',
      min_scores = Some [(''aggregate'', 300), (''Biology'', 70)],
      max_scores = Some [(''Physics'', 80)]\<rparr>"



text \<open>A course whose maxima carry the key \<^verbatim>\<open>"aggregate"\<close> with bound \<open>b\<close>.\<close>

definition capped :: "rat \<Rightarrow> course" where
  "capped b =
     \<lparr>course_name = Some ''Art'',
      min_scores = Some [],
      max_scores = Some [(''Physics'', 100), (''aggregate'', b)]\<rparr>"

text \<open>A row with two marks, 95 and 90.\<close>

definition two_marks_row :: series where
  "two_marks_row = [''Physics'' \<mapsto> num_cell 95 ''95'', ''English'' \<mapsto> num_cell 90 ''90'']"

text \<open>Three universities: A offers Law from aggregate 300, B an open Law and Medicine,
  C Medicine and an open Art.\<close>

definition law_300 :: course where
  "law_300 =
     \<lparr>course_name = Some ''Law'', min_scores = Some [(''aggregate'', 300)], max_scores = Some []\<rparr>"

definition open_course :: "string \<Rightarrow> course" where
  "open_course name = \<lparr>course_name = Some name, min_scores = Some [], max_scores = Some []\<rparr>"

definition uni_A :: university where
  "uni_A = \<lparr>uni_name = Some ''A'', uni_courses = Some [law_300]\<rparr>"

definition uni_B :: university where
  "uni_B = \<lparr>uni_name = Some ''B'', uni_courses = Some [open_course ''Law'', medicine]\<rparr>"

definition uni_C :: university where
  "uni_C = \<lparr>uni_name = Some ''C'', uni_courses = Some [medicine, open_course ''Art'']\<rparr>"

text \<open>A session without overrides over a given catalog.\<close>

definition rule_session :: "university list \<Rightarrow> session" where
  "rule_session unis = \<lparr>universities = unis, allocations_df = None, overrides = Map.empty\<rparr>"


definition scores_250 :: scores where
  "scores_250 = [''English'' \<mapsto> 100, ''Mathematics'' \<mapsto> 100, ''History'' \<mapsto> 50]"

text \<open>A roster of two students under aliased labels, and one that lacks three of the
  required columns.\<close>

definition small_roster :: dataframe where
  "small_roster =
     \<lparr>df_columns = [''student id'', ''First Name'', ''LastName'', ''Gender'', ''Section'',
                    ''physics'', '' ENGLISH '', ''Choice 1''],
      df_rows =
        [(\<lambda>l. nan_cell)
           (''student id'' := text_cell ''S1 '', ''First Name'' := text_cell ''Ada'',
            ''LastName'' := text_cell ''Okoro'', ''Gender'' := text_cell ''F'',
            ''Section'' := text_cell ''A'', ''physics'' := num_cell (761 / 8) ''95.125'',
            '' ENGLISH '' := text_cell ''absent'', ''Choice 1'' := text_cell ''Law''),
         (\<lambda>l. nan_cell)
           (''student id'' := num_cell 1002 ''1002'', ''First Name'' := text_cell ''Ben'',
            ''LastName'' := text_cell ''Ilori'', ''Gender'' := text_cell ''M'',
            ''Section'' := text_cell ''B'', '' ENGLISH '' := num_cell 90 ''90'')]\<rparr>"

definition headless_roster :: dataframe where
  "headless_roster =
     \<lparr>df_columns = [''Student ID'', ''first name'', ''Physics''],
      df_rows = [(\<lambda>l. text_cell ''7'')]\<rparr>"

section \<open>Basic facts\<close>

lemma or_empty_Some [simp]: "or_empty (Some s) = s"
  by (simp add: or_empty_def)

lemma normalize_name_Some: "normalize_name (Some s) = py_strip s"
  by (simp add: normalize_name_def)

lemmas py_string_defs =
  py_strip_def py_lower_def py_lower_char_def py_isspace_def or_empty_def
  normalize_name_def norm_choice_def lower_def char_of_def bit_0

lemma strip_manual_override: "py_strip ''Manual Override'' = ''Manual Override''"
  by (simp add: py_strip_def py_isspace_def)

section \<open>Overrides\<close>

text \<open>
  Claim C1. When the trimmed Student ID has an override entry carrying both keys,
  \<open>best_fit\<close> returns the trimmed University and Course of that entry. The scores, the
  choices and the catalog are arbitrary: none of them is consulted.
\<close>

theorem best_fit_override:
  assumes "overrides self (normalize_name (Some (student_id student))) = Some ov"
    and "ov_university ov = Some u"
    and "ov_course ov = Some c"
  shows "best_fit (self\<lparr>universities := unis\<rparr>) student scores choices
           = Inr (py_strip u, py_strip c)"
  using assms by (simp add: best_fit_def get_or_def normalize_name_Some)

text \<open>
  The instance: S1 is overridden, has no scores at all, and the catalog is one on which
  any scan would raise; the override pair comes back trimmed.
\<close>

theorem best_fit_override_witness:
  "overrides override_session (normalize_name (Some (student_id student_S1)))
     = Some \<lparr>ov_university = Some '' X University'', ov_course = Some ''Biology ''\<rparr>
   \<and> best_fit (override_session\<lparr>universities := [nameless_university]\<rparr>) student_S1
        Map.empty [Some ''Law'']
      = Inr (''X University'', ''Biology'')
   \<and> scan_courses (override_session\<lparr>universities := [nameless_university]\<rparr>) Map.empty None
      = Inl (KeyError ''name'')"
proof -
  have sid: "overrides override_session (normalize_name (Some (student_id student_S1)))
     = Some \<lparr>ov_university = Some '' X University'', ov_course = Some ''Biology ''\<rparr>"
    by (simp add: override_session_def student_S1_def py_string_defs)
  have scan: "scan_courses (override_session\<lparr>universities := [nameless_university]\<rparr>) Map.empty None
      = Inl (KeyError ''name'')"
    by (simp add: scan_courses_def nameless_university_def filtered_out_def get_or_def
        is_eligible_for_course_def)
  have strips: "py_strip '' X University'' = ''X University''" "py_strip ''Biology '' = ''Biology''"
    by (simp_all add: py_string_defs)
  from best_fit_override [OF sid, of "'' X University''" "''Biology ''" "[nameless_university]"
      Map.empty "[Some ''Law'']"]
  show ?thesis using sid scan strips by simp
qed

text \<open>
  Claim C9. With an override entry for the trimmed Student ID, \<open>best_fit\<close> returns a
  pair (it neither raises nor reaches the rules); a missing University key gives the
  University \<open>Manual Override\<close>, a missing Course key the Course \<open>Manual Override\<close>.
\<close>

theorem best_fit_override_default:
  assumes "overrides self (normalize_name (Some (student_id student))) = Some ov"
  shows "\<exists>uni course.
           best_fit self student scores choices = Inr (uni, course)
           \<and> (ov_university ov = None \<longrightarrow> uni = ''Manual Override'')
           \<and> (ov_course ov = None \<longrightarrow> course = ''Manual Override'')"
  using assms
  by (auto simp add: best_fit_def get_or_def normalize_name_Some strip_manual_override)

theorem best_fit_override_default_witness:
  "best_fit bare_override_session student_S1 Map.empty []
     = Inr (''Manual Override'', ''Manual Override'')"
proof -
  have sid: "overrides bare_override_session (normalize_name (Some (student_id student_S1)))
     = Some \<lparr>ov_university = None, ov_course = None\<rparr>"
    by (simp add: bare_override_session_def student_S1_def py_string_defs)
  from best_fit_override_default [OF sid, of Map.empty "[]"]
  show ?thesis by auto
qed

section \<open>Choice normalisation\<close>

text \<open>
  Claim C6. The claim's own example, the slots \<open>""\<close>, \<open>Law\<close>, \<open>Law\<close>: the blank slot is
  not dropped. \<open>_norm_choice\<close> turns it into \<^verbatim>\<open>None\<close>, and \<open>_collect_choices\<close> keeps that
  \<^verbatim>\<open>None\<close> as the first element of the list. The same row arises inside \<open>allocate\<close>
  from a roster that has no column Choice 1, which \<open>allocate\<close> fills with \<open>""\<close>.
\<close>

theorem collect_choices_keeps_blank_slot:
  "collect_choices [''Choice 1'' \<mapsto> text_cell [],
                    ''Choice 2'' \<mapsto> text_cell ''Law'',
                    ''Choice 3'' \<mapsto> text_cell ''Law'']
     = [None, Some ''Law'']
   \<and> collect_choices (fill_series [''Choice 2'' \<mapsto> text_cell ''Law'',
                                     ''Choice 3'' \<mapsto> text_cell ''Law''])
     = [None, Some ''Law'']"
  by (simp add: collect_choices_def choice_slots_def fill_series_def SUBJECTS_def text_cell_def
      py_string_defs)

section \<open>What the eligibility predicate decides\<close>


lemma max_loop_iff:
  "max_loop scores maxs \<longleftrightarrow>
     (\<forall>(subj, max_val) \<in> set maxs. score_get scores subj \<le> max_val)"
  by (induction scores maxs rule: max_loop.induct) auto





lemma fold_upd_apply:
  "fold (\<lambda>k m. m(k \<mapsto> f k)) ks m0 s = (if s \<in> set ks then Some (f s) else m0 s)"
  by (induction ks arbitrary: m0) auto

lemma extract_scores_apply:
  "extract_scores row s = (if s \<in> set SUBJECTS then Some (subject_score row s) else None)"
proof -
  have "extract_scores row = fold (\<lambda>k m. m(k \<mapsto> subject_score row k)) SUBJECTS Map.empty"
    unfolding extract_scores_def subject_score_def int_cell_0_def num_cell_def Let_def
    by (rule arg_cong [where f = "\<lambda>g. fold g SUBJECTS Map.empty"])
       (auto simp add: fun_eq_iff split: option.splits)
  then show ?thesis by (simp add: fold_upd_apply)
qed

lemma aggregate_not_subject: "''aggregate'' \<notin> set SUBJECTS"
  by (simp add: SUBJECTS_def)

lemma score_get_extract_aggregate: "score_get (extract_scores row) ''aggregate'' = 0"
  by (simp add: score_get_def extract_scores_apply aggregate_not_subject)

lemma eligible_split_max:
  assumes "max_scores course = Some maxs"
    and "distinct (map fst maxs)"
    and "(''aggregate'', bound) \<in> set maxs"
  shows "is_eligible_for_course scores course \<longleftrightarrow>
           score_get scores ''aggregate'' \<le> bound
           \<and> is_eligible_for_course scores
               (course\<lparr>max_scores := Some (filter (\<lambda>(subj, max_val). subj \<noteq> ''aggregate'') maxs)\<rparr>)"
proof -
  have only: "v = bound" if "(''aggregate'', v) \<in> set maxs" for v
    using that assms(2,3) by (rule_tac eq_key_imp_eq_value)
  have "max_loop scores maxs \<longleftrightarrow>
          score_get scores ''aggregate'' \<le> bound
          \<and> max_loop scores (filter (\<lambda>(subj, max_val). subj \<noteq> ''aggregate'') maxs)"
    (is "?L \<longleftrightarrow> ?A \<and> ?R")
  proof
    assume l: ?L
    have ?A using l assms(3) unfolding max_loop_iff by blast
    moreover have ?R using l unfolding max_loop_iff by simp
    ultimately show "?A \<and> ?R" ..
  next
    assume ar: "?A \<and> ?R"
    show ?L
      unfolding max_loop_iff
    proof (clarify)
      fix subj max_val
      assume mem: "(subj, max_val) \<in> set maxs"
      show "score_get scores subj \<le> max_val"
      proof (cases "subj = ''aggregate''")
        case True
        with mem only have "max_val = bound" by simp
        with True ar show ?thesis by simp
      next
        case False
        with mem have "(subj, max_val) \<in> set (filter (\<lambda>(subj, max_val). subj \<noteq> ''aggregate'') maxs)"
          by simp
        with ar show ?thesis unfolding max_loop_iff by blast
      qed
    qed
  qed
  then show ?thesis
    using assms(1) by (auto simp add: is_eligible_for_course_def Let_def get_or_def)
qed

text \<open>
  Claim C10. An entry \<open>aggregate\<close> among the maxima is compared with the score stored
  under the subject name \<open>aggregate\<close>, 0 when absent, and not with the computed
  aggregate. The normalizer never stores that name, so for its scores the entry rejects
  the student exactly when the bound is negative and has no effect otherwise.
\<close>

theorem max_aggregate_is_subject_bound:
  assumes "max_scores course = Some maxs"
    and "distinct (map fst maxs)"
    and "(''aggregate'', bound) \<in> set maxs"
  shows "(is_eligible_for_course scores course \<longleftrightarrow>
            score_get scores ''aggregate'' \<le> bound
            \<and> is_eligible_for_course scores
                (course\<lparr>max_scores := Some (filter (\<lambda>(subj, max_val). subj \<noteq> ''aggregate'') maxs)\<rparr>))
       \<and> score_get (extract_scores row) ''aggregate'' = 0
       \<and> (is_eligible_for_course (extract_scores row) course \<longleftrightarrow>
            0 \<le> bound
            \<and> is_eligible_for_course (extract_scores row)
                (course\<lparr>max_scores := Some (filter (\<lambda>(subj, max_val). subj \<noteq> ''aggregate'') maxs)\<rparr>))"
  using eligible_split_max [OF assms] score_get_extract_aggregate by simp


text \<open>
  The instance: marks of 95 and 90 give the aggregate 185; the bound 100 under
  \<open>aggregate\<close> does not reject the student, the bound -1 does.
\<close>

theorem max_aggregate_is_subject_bound_witness:
  "aggregate (extract_scores two_marks_row) = 185
   \<and> is_eligible_for_course (extract_scores two_marks_row) (capped 100)
   \<and> \<not> is_eligible_for_course (extract_scores two_marks_row) (capped (- 1))"
proof -
  have agg: "aggregate (extract_scores two_marks_row) = 185"
    by (simp add: aggregate_def score_get_def extract_scores_apply subject_score_def
        two_marks_row_def num_cell_def SUBJECTS_def py_round2_def)
  have rest: "is_eligible_for_course (extract_scores two_marks_row)
      (capped b\<lparr>max_scores := Some (filter (\<lambda>(subj, max_val). subj \<noteq> ''aggregate'')
         [(''Physics'', 100), (''aggregate'', b)])\<rparr>)" for b
    by (simp add: is_eligible_for_course_def capped_def get_or_def score_get_def
        extract_scores_apply subject_score_def two_marks_row_def num_cell_def SUBJECTS_def)
  have mx: "max_scores (capped b) = Some [(''Physics'', 100), (''aggregate'', b)]" for b
    by (simp add: capped_def)
  have d: "distinct (map fst [(''Physics'', 100::rat), (''aggregate'', b)])" for b
    by simp
  have m: "(''aggregate'', b) \<in> set [(''Physics'', 100::rat), (''aggregate'', b)]" for b
    by simp
  from max_aggregate_is_subject_bound
         [where course = "capped 100" and bound = 100 and row = two_marks_row, OF mx d m]
       rest [of 100]
  have yes: "is_eligible_for_course (extract_scores two_marks_row) (capped 100)"
    by simp
  from max_aggregate_is_subject_bound
         [where course = "capped (- 1)" and bound = "- 1" and row = two_marks_row, OF mx d m]
  have no: "\<not> is_eligible_for_course (extract_scores two_marks_row) (capped (- 1))"
    by simp
  from agg yes no show ?thesis by simp
qed

section \<open>Best fit by the rules\<close>

lemma scan_course_list_find:
  "scan_course_list scores filter_names cs =
     map_option (\<lambda>course. get_or (course_name course) [])
       (List.find (passes scores filter_names) cs)"
  by (induction cs) (simp_all add: passes_def Let_def)

lemma find_map_Pair:
  "List.find (\<lambda>(uni, course). P course) (map (Pair u) cs) = map_option (Pair u) (List.find P cs)"
  by (induction cs) simp_all

lemma find_append:
  "List.find P (xs @ ys) = (case List.find P xs of None \<Rightarrow> List.find P ys | Some x \<Rightarrow> Some x)"
  by (induction xs) simp_all

lemma first_course_Nil: "first_course P [] = None"
  by (simp add: first_course_def catalog_courses_def)

lemma first_course_Cons:
  "first_course P (uni # rest) =
     (case List.find P (get_or (uni_courses uni) []) of
        None \<Rightarrow> first_course P rest
      | Some course \<Rightarrow> Some (uni, course))"
  by (simp add: first_course_def catalog_courses_def find_append find_map_Pair
      split: option.splits)

lemma scan_universities_first_course:
  "scan_universities scores filter_names unis =
     hit_result (first_course (passes scores filter_names) unis)"
proof (induction unis)
  case Nil
  show ?case by (simp add: first_course_Nil hit_result_def)
next
  case (Cons uni rest)
  show ?case
  proof (cases "List.find (passes scores filter_names) (get_or (uni_courses uni) [])")
    case None
    with Cons show ?thesis
      by (simp add: scan_course_list_find first_course_Cons)
  next
    case (Some course)
    then show ?thesis
      by (simp add: scan_course_list_find first_course_Cons hit_result_def)
  qed
qed

lemma passes_choice:
  "passes scores (Some [ch]) = (\<lambda>course. names_choice ch course \<and> is_eligible_for_course scores course)"
  by (auto simp add: passes_def filtered_out_def names_choice_def fun_eq_iff)

lemma passes_None: "passes scores None = is_eligible_for_course scores"
  by (auto simp add: passes_def filtered_out_def fun_eq_iff)

lemma scan_courses_choice:
  "scan_courses self scores (Some [ch]) =
     hit_result (first_course (\<lambda>course. names_choice ch course \<and> is_eligible_for_course scores course)
                   (universities self))"
  by (simp add: scan_courses_def scan_universities_first_course passes_choice)

lemma scan_courses_any:
  "scan_courses self scores None =
     hit_result (first_course (is_eligible_for_course scores) (universities self))"
  by (simp add: scan_courses_def scan_universities_first_course passes_None)

lemma choice_loop_skip:
  assumes "\<forall>p \<in> set earlier.
             first_course (\<lambda>course. names_choice p course \<and> is_eligible_for_course scores course)
               (universities self) = None"
  shows "choice_loop self scores (earlier @ rest) = choice_loop self scores rest"
  using assms
  by (induction earlier) (simp_all add: scan_courses_choice hit_result_def)


text \<open>
  Claim C3. For a student without override none of whose choices names an eligible
  course, \<open>best_fit\<close> returns the first eligible course of the catalog in catalog order,
  whatever its name, and the pair (Not Allocated, N/A) when the catalog has no eligible
  course.
\<close>

theorem best_fit_fallback:
  assumes "overrides self (normalize_name (Some (student_id student))) = None"
    and "\<forall>ch \<in> set choices.
           first_course (\<lambda>course. names_choice ch course \<and> is_eligible_for_course scores course)
             (universities self) = None"
  shows "(first_course (is_eligible_for_course scores) (universities self) = None
            \<longrightarrow> best_fit self student scores choices = Inr (''Not Allocated'', ''N/A''))
       \<and> (\<forall>uni course n.
            first_course (is_eligible_for_course scores) (universities self) = Some (uni, course)
            \<and> uni_name uni = Some n
            \<longrightarrow> best_fit self student scores choices = Inr (n, get_or (course_name course) []))"
proof -
  have "choice_loop self scores choices = choice_loop self scores []"
    using choice_loop_skip [OF assms(2), of "[]"] by simp
  then have loop: "choice_loop self scores choices = Inr None"
    by simp
  show ?thesis
    using assms(1) loop by (auto simp add: best_fit_def scan_courses_any hit_result_def)
qed



lemma aggregate_250: "aggregate scores_250 = 250"
  by (simp add: aggregate_def scores_250_def SUBJECTS_def score_get_def py_round2_def)

lemmas example_defs =
  first_course_def catalog_courses_def names_choice_def is_eligible_for_course_def
  rule_session_def uni_A_def uni_B_def uni_C_def law_300_def open_course_def medicine_def
  get_or_def score_get_def student_S1_def py_string_defs


text \<open>
  The instance: aggregate 250 and the choice Law. Over A alone nothing is eligible; with
  C added the open course Art is the fallback.
\<close>

theorem best_fit_fallback_witness:
  "best_fit (rule_session [uni_A]) student_S1 scores_250 [Some ''Law''] = Inr (''Not Allocated'', ''N/A'')
   \<and> best_fit (rule_session [uni_A, uni_C]) student_S1 scores_250 [Some ''Law''] = Inr (''C'', ''Art'')"
proof -
  have ov: "overrides (rule_session unis) (normalize_name (Some (student_id student_S1))) = None" for unis
    by (simp add: rule_session_def)
  have none1: "\<forall>ch \<in> set [Some ''Law''].
      first_course (\<lambda>course. names_choice ch course \<and> is_eligible_for_course scores_250 course)
        (universities (rule_session [uni_A])) = None"
    using aggregate_250 by (simp add: example_defs)
  have none2: "\<forall>ch \<in> set [Some ''Law''].
      first_course (\<lambda>course. names_choice ch course \<and> is_eligible_for_course scores_250 course)
        (universities (rule_session [uni_A, uni_C])) = None"
    using aggregate_250 by (simp add: example_defs)
  have fb1: "first_course (is_eligible_for_course scores_250) (universities (rule_session [uni_A])) = None"
    using aggregate_250 by (simp add: example_defs)
  have fb2: "first_course (is_eligible_for_course scores_250) (universities (rule_session [uni_A, uni_C]))
      = Some (uni_C, open_course ''Art'')"
    using aggregate_250 by (simp add: example_defs)
  have name: "uni_name uni_C = Some ''C''"
    by (simp add: uni_C_def)
  from best_fit_fallback [OF ov none1] fb1
  have a: "best_fit (rule_session [uni_A]) student_S1 scores_250 [Some ''Law''] = Inr (''Not Allocated'', ''N/A'')"
    by simp
  from best_fit_fallback [OF ov none2] fb2 name
  have b: "best_fit (rule_session [uni_A, uni_C]) student_S1 scores_250 [Some ''Law'']
      = Inr (''C'', get_or (course_name (open_course ''Art'')) [])"
    by blast
  from a b show ?thesis by (simp add: open_course_def get_or_def)
qed

section \<open>Batch allocation: the rows\<close>

lemma allocate_unfold:
  "allocate self excel uni_json overrides_arg =
     (if missing_core_of excel \<noteq> []
      then (Inl (ValueError (''Missing required columns: '' @ py_join '', '' (missing_core_of excel))),
            loaded self uni_json overrides_arg)
      else (case rows_loop (loaded self uni_json overrides_arg) (iterrows (prepared excel)) [] of
              Inl e \<Rightarrow> (Inl e, loaded self uni_json overrides_arg)
            | Inr allocations \<Rightarrow>
                (Inr allocations, (loaded self uni_json overrides_arg)\<lparr>allocations_df := Some allocations\<rparr>)))"
  unfolding allocate_def missing_core_of_def prepared_def loaded_def Let_def by (rule refl)

lemma loaded_fields:
  "universities (loaded self uni_json overrides_arg) = map load_university uni_json"
  "overrides (loaded self uni_json overrides_arg) = get_or overrides_arg Map.empty"
  "allocations_df (loaded self uni_json overrides_arg) = allocations_df self"
  by (simp_all add: loaded_def load_universities_def Let_def)

subsection \<open>Filling the missing columns\<close>

lemma fill_missing_columns:
  "set (df_columns (fill_missing labels v df)) = set (df_columns df) \<union> set labels"
  by (induction labels arbitrary: df) (auto simp add: fill_missing_def add_column_def)

lemma fill_missing_rows:
  "df_rows (fill_missing labels v df) =
     map (\<lambda>r. (\<lambda>l. if l \<in> set labels \<and> l \<notin> set (df_columns df) then v else r l)) (df_rows df)"
proof (induction labels arbitrary: df)
  case Nil
  show ?case by (simp add: fill_missing_def)
next
  case (Cons c rest)
  have step: "fill_missing (c # rest) v df =
      fill_missing rest v (if c \<notin> set (df_columns df) then add_column c v df else df)"
    by (simp add: fill_missing_def)
  show ?case
  proof (cases "c \<in> set (df_columns df)")
    case True
    then show ?thesis
      unfolding step using Cons [of df] by (auto simp add: fun_eq_iff)
  next
    case False
    then show ?thesis
      unfolding step using Cons [of "add_column c v df"]
      by (auto simp add: add_column_def fun_eq_iff)
  qed
qed


lemma choice_not_subject:
  "l \<in> set [''Choice 1'', ''Choice 2'', ''Choice 3''] \<Longrightarrow> l \<notin> set SUBJECTS"
  by (auto simp add: SUBJECTS_def)

lemma iterrows_prepared:
  "iterrows (prepared excel) = map fill_series (iterrows (remap_columns excel))"
  unfolding iterrows_def prepared_def fill_missing_rows fill_missing_columns map_map
  by (rule map_cong [OF refl]) (auto simp add: fill_series_def fun_eq_iff dest: choice_not_subject)

lemma length_iterrows_remap: "length (iterrows (remap_columns excel)) = length (df_rows excel)"
  by (simp add: iterrows_def remap_columns_def)



lemma rows_loop_iff:
  "rows_loop self rows acc = Inr out \<longleftrightarrow>
     (\<exists>outs. out = acc @ outs \<and> list_all2 (\<lambda>row a. allocate_row self row = Inr a) rows outs)"
proof (induction rows arbitrary: acc)
  case Nil
  show ?case by auto
next
  case (Cons row rest)
  show ?case
  proof (cases "allocate_row self row")
    case (Inl e)
    then show ?thesis by (simp add: list_all2_Cons1)
  next
    case (Inr a)
    then show ?thesis
      by (auto simp add: Cons list_all2_Cons1)
  qed
qed




section \<open>Batch allocation: the whole pass\<close>

subsection \<open>Dependence on the session\<close>

lemma choice_loop_cong:
  "universities a = universities b \<Longrightarrow> choice_loop a scores choices = choice_loop b scores choices"
  by (induction choices) (simp_all add: scan_courses_def cong: sum.case_cong option.case_cong)

lemma best_fit_cong:
  assumes "universities a = universities b" and "overrides a = overrides b"
  shows "best_fit a student scores choices = best_fit b student scores choices"
proof -
  have scan: "scan_courses a = scan_courses b"
    by (simp add: fun_eq_iff scan_courses_def assms(1))
  show ?thesis
    unfolding best_fit_def scan choice_loop_cong [OF assms(1)] assms(2) ..
qed

lemma allocate_row_cong:
  assumes "universities a = universities b" and "overrides a = overrides b"
  shows "allocate_row a row = allocate_row b row"
  unfolding allocate_row_def best_fit_cong [OF assms] ..

lemma rows_loop_cong:
  assumes "universities a = universities b" and "overrides a = overrides b"
  shows "rows_loop a rows acc = rows_loop b rows acc"
  by (induction rows arbitrary: acc)
     (simp_all add: allocate_row_cong [OF assms] cong: sum.case_cong)

lemma allocate_fst_cong:
  "fst (allocate a excel uni_json overrides_arg) = fst (allocate b excel uni_json overrides_arg)"
proof -
  have "rows_loop (loaded a uni_json overrides_arg) rows [] = rows_loop (loaded b uni_json overrides_arg) rows []"
    for rows
    by (rule rows_loop_cong) (simp_all add: loaded_fields)
  then show ?thesis
    by (simp add: allocate_unfold split: sum.splits)
qed

subsection \<open>No error after the column check\<close>

lemma scan_universities_total:
  assumes "\<forall>u \<in> set unis. uni_name u \<noteq> None"
  shows "\<exists>r. scan_universities scores filter_names unis = Inr r"
  using assms by (induction unis) (auto split: option.splits)

lemma choice_loop_total:
  assumes "\<forall>u \<in> set (universities self). uni_name u \<noteq> None"
  shows "\<exists>r. choice_loop self scores choices = Inr r"
proof (induction choices)
  case Nil
  show ?case by simp
next
  case (Cons ch rest)
  from scan_universities_total [OF assms]
  obtain r where "scan_courses self scores (Some [ch]) = Inr r"
    unfolding scan_courses_def by blast
  with Cons show ?case by (cases r) auto
qed

lemma best_fit_total:
  assumes "\<forall>u \<in> set (universities self). uni_name u \<noteq> None"
  shows "\<exists>p. best_fit self student scores choices = Inr p"
proof -
  obtain r where loop: "choice_loop self scores choices = Inr r"
    using choice_loop_total [OF assms] by blast
  obtain r' where scan: "scan_courses self scores None = Inr r'"
    using scan_universities_total [OF assms] unfolding scan_courses_def by blast
  show ?thesis
    unfolding best_fit_def Let_def using loop scan
    by (cases r; cases r') (auto split: option.splits)
qed

lemma loaded_universities_named:
  "\<forall>u \<in> set (universities (loaded self uni_json overrides_arg)). uni_name u \<noteq> None"
  by (simp add: loaded_fields load_university_def)

lemma row_name_fill:
  assumes "row c \<noteq> None"
  shows "row_name (fill_series row) c = row_name row c"
  using assms by (auto simp add: row_name_def fill_series_def)

lemma row_name_present:
  assumes "row c \<noteq> None"
  shows "\<exists>name. row_name row c = Inr name"
  using assms by (auto simp add: row_name_def)

lemma student_of_row_fill:
  assumes "\<forall>c \<in> set core_required. row c \<noteq> None"
  shows "student_of_row (fill_series row) = student_of_row row"
    and "\<exists>st. student_of_row row = Inr st"
proof -
  have present: "row ''Student ID'' \<noteq> None" "row ''FirstName'' \<noteq> None"
    "row ''LastName'' \<noteq> None" "row ''Gender'' \<noteq> None" "row ''Section'' \<noteq> None"
    using assms by (simp_all add: core_required_def)
  show "student_of_row (fill_series row) = student_of_row row"
    unfolding student_of_row_def
      row_name_fill [of row "''Student ID''", OF present(1)]
      row_name_fill [of row "''FirstName''", OF present(2)]
      row_name_fill [of row "''LastName''", OF present(3)]
      row_name_fill [of row "''Gender''", OF present(4)]
      row_name_fill [of row "''Section''", OF present(5)] ..
  obtain a where a: "row_name row ''Student ID'' = Inr a"
    using row_name_present [of row "''Student ID''"] present(1) by blast
  obtain b where b: "row_name row ''FirstName'' = Inr b"
    using row_name_present [of row "''FirstName''"] present(2) by blast
  obtain c where c: "row_name row ''LastName'' = Inr c"
    using row_name_present [of row "''LastName''"] present(3) by blast
  obtain d where d: "row_name row ''Gender'' = Inr d"
    using row_name_present [of row "''Gender''"] present(4) by blast
  obtain e where e: "row_name row ''Section'' = Inr e"
    using row_name_present [of row "''Section''"] present(5) by blast
  show "\<exists>st. student_of_row row = Inr st"
    by (simp add: student_of_row_def a b c d e)
qed

lemma allocate_row_total:
  assumes "\<forall>u \<in> set (universities self). uni_name u \<noteq> None"
    and "\<forall>c \<in> set core_required. row c \<noteq> None"
  shows "\<exists>a. allocate_row self (fill_series row) = Inr a
             \<and> student_of_row row = Inr (alloc_student a)"
proof -
  obtain st where st: "student_of_row row = Inr st"
    using student_of_row_fill(2) [OF assms(2)] by blast
  obtain p where "best_fit self st (extract_scores (fill_series row)) (collect_choices (fill_series row)) = Inr p"
    using best_fit_total [OF assms(1)] by blast
  then show ?thesis
    using st student_of_row_fill(1) [OF assms(2)]
    by (cases p) (simp add: allocate_row_def Let_def)
qed

lemma list_all2_exists:
  assumes "\<forall>x \<in> set xs. \<exists>y. P x y"
  shows "\<exists>ys. list_all2 P xs ys"
  using assms
proof (induction xs)
  case Nil
  show ?case by simp
next
  case (Cons x xs)
  then obtain y ys where "P x y" "list_all2 P xs ys" by auto
  then have "list_all2 P (x # xs) (y # ys)" by simp
  then show ?case by blast
qed

lemma iterrows_remap_labels:
  assumes "row \<in> set (iterrows (remap_columns excel))"
    and "c \<in> set (df_columns (remap_columns excel))"
  shows "row c \<noteq> None"
  using assms by (auto simp add: iterrows_def)

lemma allocate_total:
  assumes "\<forall>c \<in> set core_required. c \<in> set (df_columns (remap_columns excel))"
  shows "\<exists>allocations.
           fst (allocate self excel uni_json overrides_arg) = Inr allocations
           \<and> list_all2 (\<lambda>row a. allocate_row (loaded self uni_json overrides_arg) (fill_series row) = Inr a
                                \<and> student_of_row row = Inr (alloc_student a))
               (iterrows (remap_columns excel)) allocations"
proof -
  let ?self = "loaded self uni_json overrides_arg"
  let ?P = "\<lambda>row a. allocate_row ?self (fill_series row) = Inr a
                    \<and> student_of_row row = Inr (alloc_student a)"
  have "\<forall>row \<in> set (iterrows (remap_columns excel)). \<exists>a. ?P row a"
  proof
    fix row
    assume "row \<in> set (iterrows (remap_columns excel))"
    with assms have "\<forall>c \<in> set core_required. row c \<noteq> None"
      using iterrows_remap_labels by blast
    from allocate_row_total [OF loaded_universities_named this]
    show "\<exists>a. ?P row a" .
  qed
  from list_all2_exists [where P = ?P, OF this]
  obtain allocations where all2: "list_all2 ?P (iterrows (remap_columns excel)) allocations" ..
  then have "list_all2 (\<lambda>row a. allocate_row ?self (fill_series row) = Inr a)
               (iterrows (remap_columns excel)) allocations"
    by (rule list_all2_mono) simp
  then have "rows_loop ?self (iterrows (prepared excel)) [] = Inr allocations"
    by (simp add: rows_loop_iff iterrows_prepared list_all2_map1)
  moreover have "missing_core_of excel = []"
    using assms by (simp add: missing_core_of_def filter_empty_conv)
  ultimately have "fst (allocate self excel uni_json overrides_arg) = Inr allocations"
    by (simp add: allocate_unfold)
  with all2 show ?thesis by blast
qed

text \<open>
  Claim C8. The outcome of \<open>allocate\<close> is the same for any two sessions it is called on
  with the same roster, catalog and overrides, and so is the same when the call is
  repeated on the session the first call left behind: nothing a session holds from
  before reaches the result. When the required columns are present (and the labels are
  distinct after renaming) it returns one row per roster row, in roster order: the i-th
  result row is that of the i-th student.
\<close>

theorem allocate_deterministic:
  "fst (allocate self excel uni_json overrides_arg) = fst (allocate self' excel uni_json overrides_arg)
   \<and> fst (allocate (snd (allocate self excel uni_json overrides_arg)) excel uni_json overrides_arg)
       = fst (allocate self excel uni_json overrides_arg)
   \<and> (distinct (df_columns (remap_columns excel))
        \<and> (\<forall>c \<in> set core_required. c \<in> set (df_columns (remap_columns excel)))
        \<longrightarrow> (\<exists>allocations.
               fst (allocate self excel uni_json overrides_arg) = Inr allocations
               \<and> length allocations = length (df_rows excel)
               \<and> (\<forall>i < length allocations.
                    student_of_row (iterrows (remap_columns excel) ! i)
                      = Inr (alloc_student (allocations ! i)))))"
proof (intro conjI impI)
  show "fst (allocate self excel uni_json overrides_arg) = fst (allocate self' excel uni_json overrides_arg)"
    by (rule allocate_fst_cong)
  show "fst (allocate (snd (allocate self excel uni_json overrides_arg)) excel uni_json overrides_arg)
       = fst (allocate self excel uni_json overrides_arg)"
    by (rule allocate_fst_cong)
next
  assume "distinct (df_columns (remap_columns excel))
    \<and> (\<forall>c \<in> set core_required. c \<in> set (df_columns (remap_columns excel)))"
  then have "\<forall>c \<in> set core_required. c \<in> set (df_columns (remap_columns excel))" ..
  from allocate_total [OF this, of self uni_json overrides_arg]
  obtain allocations where res: "fst (allocate self excel uni_json overrides_arg) = Inr allocations"
    and all2: "list_all2 (\<lambda>row a. allocate_row (loaded self uni_json overrides_arg) (fill_series row) = Inr a
                                \<and> student_of_row row = Inr (alloc_student a))
               (iterrows (remap_columns excel)) allocations"
    by blast
  have len: "length allocations = length (df_rows excel)"
    using list_all2_lengthD [OF all2] by (simp add: length_iterrows_remap)
  have "\<forall>i < length allocations.
          student_of_row (iterrows (remap_columns excel) ! i) = Inr (alloc_student (allocations ! i))"
    using list_all2_nthD2 [OF all2] by blast
  with res len show "\<exists>allocations.
               fst (allocate self excel uni_json overrides_arg) = Inr allocations
               \<and> length allocations = length (df_rows excel)
               \<and> (\<forall>i < length allocations.
                    student_of_row (iterrows (remap_columns excel) ! i)
                      = Inr (alloc_student (allocations ! i)))"
    by blast
qed

subsection \<open>Missing required columns\<close>

lemma distinct_core_required: "distinct core_required"
  by (simp add: core_required_def)

text \<open>
  Claim C7. When a required column is absent after renaming, \<open>allocate\<close> raises one
  \<open>ValueError\<close> whose message lists exactly the absent required columns, each once; no
  rows are returned, and the result set stored in the session is the one stored before
  the call.
\<close>

theorem allocate_missing_columns:
  assumes "\<exists>c \<in> set core_required. c \<notin> set (df_columns (remap_columns excel))"
  shows "\<exists>names.
           fst (allocate self excel uni_json overrides_arg)
             = Inl (ValueError (''Missing required columns: '' @ py_join '', '' names))
           \<and> set names = {c \<in> set core_required. c \<notin> set (df_columns (remap_columns excel))}
           \<and> distinct names
           \<and> allocations_df (snd (allocate self excel uni_json overrides_arg)) = allocations_df self"
proof -
  have ne: "missing_core_of excel \<noteq> []"
    using assms by (auto simp add: missing_core_of_def filter_empty_conv)
  have "fst (allocate self excel uni_json overrides_arg)
          = Inl (ValueError (''Missing required columns: '' @ py_join '', '' (missing_core_of excel)))"
    using ne by (simp add: allocate_unfold)
  moreover have "set (missing_core_of excel)
          = {c \<in> set core_required. c \<notin> set (df_columns (remap_columns excel))}"
    by (simp add: missing_core_of_def)
  moreover have "distinct (missing_core_of excel)"
    by (simp add: missing_core_of_def distinct_core_required)
  moreover have "allocations_df (snd (allocate self excel uni_json overrides_arg)) = allocations_df self"
    using ne by (simp add: allocate_unfold loaded_fields)
  ultimately show ?thesis by blast
qed



subsection \<open>The example rosters\<close>

lemma small_roster_columns:
  "df_columns (remap_columns small_roster) =
     [''Student ID'', ''FirstName'', ''LastName'', ''Gender'', ''Section'', ''Physics'', ''English'',
      ''Choice 1'']"
  by (simp add: remap_columns_def small_roster_def column_alias_def COLUMN_ALIASES_def get_or_def
      py_string_defs)

lemma headless_roster_columns:
  "df_columns (remap_columns headless_roster) = [''Student ID'', ''FirstName'', ''Physics'']"
  by (simp add: remap_columns_def headless_roster_def column_alias_def COLUMN_ALIASES_def get_or_def
      py_string_defs)

lemma small_roster_core:
  "\<forall>c \<in> set core_required. c \<in> set (df_columns (remap_columns small_roster))"
  by (simp add: small_roster_columns core_required_def)

lemma small_roster_rows:
  "iterrows (remap_columns small_roster) =
     [[''Student ID'' \<mapsto> text_cell ''S1 '', ''FirstName'' \<mapsto> text_cell ''Ada'',
       ''LastName'' \<mapsto> text_cell ''Okoro'', ''Gender'' \<mapsto> text_cell ''F'',
       ''Section'' \<mapsto> text_cell ''A'', ''Physics'' \<mapsto> num_cell (761 / 8) ''95.125'',
       ''English'' \<mapsto> text_cell ''absent'', ''Choice 1'' \<mapsto> text_cell ''Law''],
      [''Student ID'' \<mapsto> num_cell 1002 ''1002'', ''FirstName'' \<mapsto> text_cell ''Ben'',
       ''LastName'' \<mapsto> text_cell ''Ilori'', ''Gender'' \<mapsto> text_cell ''M'',
       ''Section'' \<mapsto> text_cell ''B'', ''Physics'' \<mapsto> nan_cell,
       ''English'' \<mapsto> num_cell 90 ''90'', ''Choice 1'' \<mapsto> nan_cell]]"
  unfolding iterrows_def small_roster_columns
  by (simp add: remap_columns_def small_roster_def column_alias_def COLUMN_ALIASES_def get_or_def
      py_string_defs fun_eq_iff)






text \<open>
  The instance for C8: a fresh session and one that holds other overrides return the
  same two rows, for S1 and for 1002 in this order.
\<close>

theorem allocate_deterministic_witness:
  "\<exists>allocations.
     fst (allocate (new_session None) small_roster [uni_A] None) = Inr allocations
     \<and> fst (allocate override_session small_roster [uni_A] None) = Inr allocations
     \<and> length allocations = 2
     \<and> student_id (alloc_student (allocations ! 0)) = ''S1''
     \<and> student_id (alloc_student (allocations ! 1)) = ''1002''"
proof -
  note det = allocate_deterministic
    [of "new_session None" small_roster "[uni_A]" None override_session]
  have "distinct (df_columns (remap_columns small_roster))"
    by (simp add: small_roster_columns)
  with det small_roster_core obtain allocations
    where res: "fst (allocate (new_session None) small_roster [uni_A] None) = Inr allocations"
      and len: "length allocations = length (df_rows small_roster)"
      and st: "\<forall>i < length allocations.
                 student_of_row (iterrows (remap_columns small_roster) ! i)
                   = Inr (alloc_student (allocations ! i))"
    by blast
  have same: "fst (allocate override_session small_roster [uni_A] None) = Inr allocations"
    using det res by simp
  have len2: "length allocations = 2"
    using len by (simp add: small_roster_def)
  have "0 < length allocations" "1 < length allocations"
    using len2 by simp_all
  with st have rows: "Inr (alloc_student (allocations ! 0))
        = student_of_row (iterrows (remap_columns small_roster) ! 0)"
    "Inr (alloc_student (allocations ! 1))
        = student_of_row (iterrows (remap_columns small_roster) ! 1)"
    by simp_all
  have "student_of_row (iterrows (remap_columns small_roster) ! 0)
      = Inr \<lparr>student_id = ''S1'', first_name = ''Ada'', last_name = ''Okoro'',
              gender = ''F'', section_ = ''A''\<rparr>"
    "student_of_row (iterrows (remap_columns small_roster) ! 1)
      = Inr \<lparr>student_id = ''1002'', first_name = ''Ben'', last_name = ''Ilori'',
              gender = ''M'', section_ = ''B''\<rparr>"
    by (simp_all add: small_roster_rows student_of_row_def row_name_def text_cell_def num_cell_def
        py_string_defs)
  with rows have "student_id (alloc_student (allocations ! 0)) = ''S1''"
    "student_id (alloc_student (allocations ! 1)) = ''1002''"
    by simp_all
  with res same len2 show ?thesis by blast
qed

text \<open>
  The instance for C7: the roster has only Student ID, first name and Physics; the
  message names LastName, Gender and Section.
\<close>

theorem allocate_missing_columns_witness:
  "\<exists>names.
     fst (allocate override_session headless_roster [uni_A] None)
       = Inl (ValueError (''Missing required columns: '' @ py_join '', '' names))
     \<and> set names = {''LastName'', ''Gender'', ''Section''}
     \<and> allocations_df (snd (allocate override_session headless_roster [uni_A] None)) = None"
proof -
  have missing: "\<exists>c \<in> set core_required. c \<notin> set (df_columns (remap_columns headless_roster))"
    by (simp add: headless_roster_columns core_required_def)
  have names: "{c \<in> set core_required. c \<notin> set (df_columns (remap_columns headless_roster))}
      = {''LastName'', ''Gender'', ''Section''}"
    by (auto simp add: headless_roster_columns core_required_def)
  have old: "allocations_df override_session = None"
    by (simp add: override_session_def)
  from allocate_missing_columns [OF missing, of override_session "[uni_A]" None]
  show ?thesis unfolding names old by blast
qed

end
